theory Spec2Isabelle
  imports Complex_Main "HOL-Library.Log_Nat"
begin

section \<open>JavaScript values and the string operations the services use\<close>

text \<open>
  The services work on strings, on values produced by \<^verbatim>\<open>JSON.parse\<close> and on the
  results of awaited calls. A string is a \<^typ>\<open>string\<close>: a sequence of characters with
  code points below 256, on which the operations below follow ECMAScript exactly.
  A parsed JSON value is a \<open>json\<close>; \<^verbatim>\<open>undefined\<close> is the \<open>None\<close> of a property read.
  A number is a double, kept as the rational it is exactly, or one of the infinities
  (\<open>JInf True\<close> the negative one); the two zeros are one value, as they are for
  \<^verbatim>\<open>===\<close> and for truthiness.
  An awaited call either returns a value or throws; the thrown value is kept as its message.
\<close>

datatype json =
    JNull
  | JBool bool
  | JNum rat
  | JInf bool
  | JStr string
  | JArr "json list"
  | JObj "(string \<times> json) list"

datatype 'a js_result = Returned 'a | Thrown string

definition is_ws :: "char \<Rightarrow> bool" where
  \<comment> \<open>the regular expression class \<^verbatim>\<open>\s\<close>, also what \<^verbatim>\<open>trim\<close> strips: tab, line feed,
      vertical tab, form feed, carriage return, space, no-break space\<close>
  "is_ws c = (let n = (of_char c :: nat) in (9 \<le> n \<and> n \<le> 13) \<or> n = 32 \<or> n = 160)"

definition is_digit :: "char \<Rightarrow> bool" where
  "is_digit c = (let n = (of_char c :: nat) in 48 \<le> n \<and> n \<le> 57)"

definition is_lower :: "char \<Rightarrow> bool" where
  "is_lower c = (let n = (of_char c :: nat) in 97 \<le> n \<and> n \<le> 122)"

definition is_upper :: "char \<Rightarrow> bool" where
  "is_upper c = (let n = (of_char c :: nat) in 65 \<le> n \<and> n \<le> 90)"

definition is_word_char :: "char \<Rightarrow> bool" where
  \<comment> \<open>the class \<^verbatim>\<open>[a-zA-Z0-9_]\<close>\<close>
  "is_word_char c = (is_lower c \<or> is_upper c \<or> is_digit c \<or> c = CHR ''_'')"

definition is_dot :: "char \<Rightarrow> bool" where
  \<comment> \<open>the class \<^verbatim>\<open>.\<close>: anything but a line terminator\<close>
  "is_dot c = (c \<noteq> CHR 0x0A \<and> c \<noteq> CHR 0x0D)"

definition lower_char :: "char \<Rightarrow> char" where
  "lower_char c = (let n = (of_char c :: nat) in
     if (65 \<le> n \<and> n \<le> 90) \<or> (192 \<le> n \<and> n \<le> 222 \<and> n \<noteq> 215) then char_of (n + 32) else c)"

definition toLowerCase :: "string \<Rightarrow> string" where
  "toLowerCase s = map lower_char s"

definition trim :: "string \<Rightarrow> string" where
  "trim s = rev (dropWhile is_ws (rev (dropWhile is_ws s)))"

fun starts_with :: "string \<Rightarrow> string \<Rightarrow> bool" where
  "starts_with s [] = True"
| "starts_with [] (p # ps) = False"
| "starts_with (c # cs) (p # ps) = (c = p \<and> starts_with cs ps)"

fun indexOf :: "string \<Rightarrow> string \<Rightarrow> nat option" where
  "indexOf [] needle = (if needle = [] then Some 0 else None)"
| "indexOf (c # cs) needle =
     (if starts_with (c # cs) needle then Some 0 else map_option Suc (indexOf cs needle))"

fun lastIndexOf :: "string \<Rightarrow> string \<Rightarrow> nat option" where
  "lastIndexOf [] needle = (if needle = [] then Some 0 else None)"
| "lastIndexOf (c # cs) needle =
     (case lastIndexOf cs needle of
        Some i \<Rightarrow> Some (Suc i)
      | None \<Rightarrow> if starts_with (c # cs) needle then Some 0 else None)"

definition str_includes :: "string \<Rightarrow> string \<Rightarrow> bool" where
  \<comment> \<open>\<^verbatim>\<open>s.includes(needle)\<close>\<close>
  "str_includes s needle = (indexOf s needle \<noteq> None)"

definition substring :: "string \<Rightarrow> nat \<Rightarrow> nat \<Rightarrow> string" where
  \<comment> \<open>\<^verbatim>\<open>s.substring(a, b)\<close>: the two indices are put in order and clamped to the length\<close>
  "substring s a b = take (max a b - min a b) (drop (min a b) s)"

section \<open>Regular expressions\<close>

text \<open>
  Every regular expression of the services is a sequence of character classes, each with
  a quantifier, possibly closed by \<^verbatim>\<open>$\<close>. \<open>match_here\<close> is the backtracking matcher of
  ECMAScript on such sequences: a greedy quantifier tries the longest run first, a lazy
  one the shortest, and the first choice that lets the rest of the pattern match wins.
  It returns the text consumed by each piece and the text after the match.
  A \<open>regex\<close> is written as a list of groups of pieces, so that a replacement can name the
  text of a group (\<^verbatim>\<open>$1\<close>, \<^verbatim>\<open>$2\<close>) by its position; \<open>match_at\<close> returns the text of
  each group.
\<close>

datatype quant = Once | Optional | Star | Plus | LazyStar

datatype piece = Cls "char \<Rightarrow> bool" quant | EndOfInput

type_synonym regex = "piece list list"

fun counts :: "quant \<Rightarrow> nat \<Rightarrow> nat list" where
  "counts Once n = (if 1 \<le> n then [1] else [])"
| "counts Optional n = (if 1 \<le> n then [1, 0] else [0])"
| "counts Star n = rev [0..<Suc n]"
| "counts Plus n = rev [1..<Suc n]"
| "counts LazyStar n = [0..<Suc n]"

fun first_some :: "('a \<Rightarrow> 'b option) \<Rightarrow> 'a list \<Rightarrow> 'b option" where
  "first_some f [] = None"
| "first_some f (k # ks) = (case f k of Some r \<Rightarrow> Some r | None \<Rightarrow> first_some f ks)"

primrec match_here :: "piece list \<Rightarrow> string \<Rightarrow> (string list \<times> string) option" where
  "match_here [] s = Some ([], s)"
| "match_here (p # ps) s =
     (case p of
        EndOfInput \<Rightarrow>
          (if s = [] then map_option (\<lambda>(segs, rest). ([] # segs, rest)) (match_here ps s)
           else None)
      | Cls cl q \<Rightarrow>
          first_some
            (\<lambda>k. map_option (\<lambda>(segs, rest). (take k s # segs, rest)) (match_here ps (drop k s)))
            (counts q (length (takeWhile cl s))))"

fun regroup :: "nat list \<Rightarrow> string list \<Rightarrow> string list" where
  "regroup [] segs = []"
| "regroup (n # ns) segs = concat (take n segs) # regroup ns (drop n segs)"

definition match_at :: "regex \<Rightarrow> string \<Rightarrow> (string list \<times> string) option" where
  "match_at re s =
     map_option (\<lambda>(segs, rest). (regroup (map length re) segs, rest)) (match_here (concat re) s)"

definition lit :: "string \<Rightarrow> piece list" where
  \<comment> \<open>a literal text inside a pattern\<close>
  "lit s = map (\<lambda>c. Cls (\<lambda>x. x = c) Once) s"

definition one_of :: "string \<Rightarrow> char \<Rightarrow> bool" where
  "one_of s c = (c \<in> set s)"

definition none_of :: "string \<Rightarrow> char \<Rightarrow> bool" where
  "none_of s c = (c \<notin> set s)"

fun group :: "string list \<Rightarrow> nat \<Rightarrow> string" where
  \<comment> \<open>the text of group number \<open>i\<close> of a match, counted from 0\<close>
  "group [] i = []"
| "group (g # gs) 0 = g"
| "group (g # gs) (Suc i) = group gs i"

fun regex_test :: "regex \<Rightarrow> string \<Rightarrow> bool" where
  \<comment> \<open>\<^verbatim>\<open>re.test(s)\<close>: some position of \<open>s\<close> starts a match\<close>
  "regex_test re [] = (match_at re [] \<noteq> None)"
| "regex_test re (c # cs) = (match_at re (c # cs) \<noteq> None \<or> regex_test re cs)"

fun replace_first :: "regex \<Rightarrow> (string list \<Rightarrow> string) \<Rightarrow> string \<Rightarrow> string" where
  \<comment> \<open>\<^verbatim>\<open>s.replace(re, ...)\<close> without the g flag: only the leftmost match is replaced\<close>
  "replace_first re rep [] = (case match_at re [] of Some (gs, rest) \<Rightarrow> rep gs | None \<Rightarrow> [])"
| "replace_first re rep (c # cs) =
     (case match_at re (c # cs) of
        Some (gs, rest) \<Rightarrow> rep gs @ rest
      | None \<Rightarrow> c # replace_first re rep cs)"

fun replace_from :: "regex \<Rightarrow> (string list \<Rightarrow> string) \<Rightarrow> nat \<Rightarrow> string \<Rightarrow> string" where
  \<comment> \<open>the scan of a g-flag replace; \<open>skip\<close> counts the characters still covered by the
      last match. After an empty match the scan copies one character and moves on.\<close>
  "replace_from re rep skip [] =
     (if skip = 0 then (case match_at re [] of Some (gs, rest) \<Rightarrow> rep gs | None \<Rightarrow> [])
      else [])"
| "replace_from re rep skip (c # cs) =
     (if 0 < skip then replace_from re rep (skip - 1) cs
      else (case match_at re (c # cs) of
              None \<Rightarrow> c # replace_from re rep 0 cs
            | Some (gs, rest) \<Rightarrow>
                (let n = length (concat gs) in
                 if n = 0 then rep gs @ c # replace_from re rep 0 cs
                 else rep gs @ replace_from re rep (n - 1) cs)))"

definition replace_all :: "regex \<Rightarrow> (string list \<Rightarrow> string) \<Rightarrow> string \<Rightarrow> string" where
  \<comment> \<open>\<^verbatim>\<open>s.replace(re, ...)\<close> with the g flag\<close>
  "replace_all re rep s = replace_from re rep 0 s"

fun match_from :: "regex \<Rightarrow> nat \<Rightarrow> string \<Rightarrow> string list" where
  "match_from re skip [] =
     (if skip = 0 then (case match_at re [] of Some (gs, rest) \<Rightarrow> [concat gs] | None \<Rightarrow> [])
      else [])"
| "match_from re skip (c # cs) =
     (if 0 < skip then match_from re (skip - 1) cs
      else (case match_at re (c # cs) of
              None \<Rightarrow> match_from re 0 cs
            | Some (gs, rest) \<Rightarrow> concat gs # match_from re (length (concat gs) - 1) cs))"

definition match_all :: "regex \<Rightarrow> string \<Rightarrow> string list" where
  \<comment> \<open>\<^verbatim>\<open>s.match(re)\<close> with the g flag: the matched texts, left to right; JavaScript's
      \<^verbatim>\<open>null\<close> is the empty list\<close>
  "match_all re s = match_from re 0 s"

section \<open>JSON.parse\<close>

text \<open>
  The grammar of ECMA-404 as \<^verbatim>\<open>JSON.parse\<close> reads it: white space is space, tab, line
  feed and carriage return; a string has no raw control character; a number has no
  leading zero, and digits on both sides of its point. A number literal denotes an exact
  decimal, and \<open>to_double\<close> rounds it to the nearest double, ties to the even mantissa, a
  value beyond the largest double to an infinity. An object keeps each key once, at the place where it came first and
  with the value that came last. An escape \<^verbatim>\<open>\uXXXX\<close> above \<^verbatim>\<open>\u00FF\<close> names a character
  outside the alphabet of \<^typ>\<open>string\<close> and is reduced modulo 256.
  The recursion is bounded by a fuel that \<open>JSON_parse\<close> sets beyond the length of the
  text; \<open>None\<close> is the SyntaxError.
\<close>

definition json_ws :: "char \<Rightarrow> bool" where
  "json_ws c = (c = CHR '' '' \<or> c = CHR 0x09 \<or> c = CHR 0x0A \<or> c = CHR 0x0D)"

definition skip_ws :: "string \<Rightarrow> string" where
  "skip_ws s = dropWhile json_ws s"

definition digit_val :: "char \<Rightarrow> int" where
  "digit_val c = of_char c - 48"

definition hex_val :: "char \<Rightarrow> nat option" where
  "hex_val c = (let n = (of_char c :: nat) in
     if 48 \<le> n \<and> n \<le> 57 then Some (n - 48)
     else if 97 \<le> n \<and> n \<le> 102 then Some (n - 87)
     else if 65 \<le> n \<and> n \<le> 70 then Some (n - 55)
     else None)"

definition hex4 :: "string \<Rightarrow> nat option" where
  "hex4 s = (case map hex_val (take 4 s) of
       [Some a, Some b, Some c, Some d] \<Rightarrow> Some (((a * 16 + b) * 16 + c) * 16 + d)
     | _ \<Rightarrow> None)"

definition simple_escape :: "char \<Rightarrow> char option" where
  "simple_escape e =
     (if e = CHR 0x22 then Some (CHR 0x22)
      else if e = CHR 0x5C then Some (CHR 0x5C)
      else if e = CHR ''/'' then Some (CHR ''/'')
      else if e = CHR ''b'' then Some (CHR 0x08)
      else if e = CHR ''f'' then Some (CHR 0x0C)
      else if e = CHR ''n'' then Some (CHR 0x0A)
      else if e = CHR ''r'' then Some (CHR 0x0D)
      else if e = CHR ''t'' then Some (CHR 0x09)
      else None)"

fun parse_chars :: "string \<Rightarrow> string \<Rightarrow> (string \<times> string) option" where
  \<comment> \<open>the characters of a string after its opening quote, up to the closing one.
      \<^typ>\<open>char\<close> ends at \<^verbatim>\<open>\u00FF\<close>: an escape beyond it has no character here, and
      \<open>char_of\<close> reduces it modulo 256, where JavaScript keeps the character. Texts that
      name such a character are outside what this model describes.\<close>
  "parse_chars acc [] = None"
| "parse_chars acc (c # cs) =
     (if c = CHR 0x22 then Some (rev acc, cs)
      else if c = CHR 0x5C then
        (case cs of
           [] \<Rightarrow> None
         | e # r \<Rightarrow>
             if e = CHR ''u'' then
               (case hex4 r of
                  Some n \<Rightarrow> parse_chars (char_of n # acc) (drop 4 r)
                | None \<Rightarrow> None)
             else
               (case simple_escape e of
                  Some x \<Rightarrow> parse_chars (x # acc) r
                | None \<Rightarrow> None))
      else if (of_char c :: nat) < 32 then None
      else parse_chars (c # acc) cs)"

definition digits_val :: "string \<Rightarrow> int" where
  "digits_val ds = foldl (\<lambda>a c. 10 * a + digit_val c) 0 ds"

definition pow2 :: "int \<Rightarrow> rat" where
  "pow2 k = (if 0 \<le> k then 2 ^ nat k else 1 / 2 ^ nat (- k))"

definition round_half_even :: "rat \<Rightarrow> int" where
  "round_half_even n =
     (let f = \<lfloor>n\<rfloor>; r = n - of_int f
      in if r < 1 / 2 then f else if 1 / 2 < r then f + 1 else if even f then f else f + 1)"

definition to_double :: "rat \<Rightarrow> json" where
  \<comment> \<open>binary64: 53 bits of mantissa, least exponent \<open>-1022\<close>, subnormals in steps of
      \<open>2^-1074\<close>, overflow from \<open>2^1024\<close>. \<open>e\<close> is the binary exponent of the magnitude,
      \<open>quantum\<close> the distance between the doubles around it.\<close>
  "to_double q =
     (if q = 0 then JNum 0
      else
        (let a = \<bar>q\<bar>;
             e0 = bitlen (fst (quotient_of a)) - bitlen (snd (quotient_of a));
             e = (if pow2 e0 \<le> a then e0 else e0 - 1);
             quantum = (if e < - 1022 then pow2 (- 1074) else pow2 (e - 52));
             v = of_int (round_half_even (a / quantum)) * quantum
         in if pow2 1024 \<le> v then JInf (q < 0)
            else JNum (if q < 0 then - v else v)))"

definition parse_number :: "string \<Rightarrow> (json \<times> string) option" where
  "parse_number s =
     (let neg = (s \<noteq> [] \<and> hd s = CHR ''-'');
          s1 = (if neg then tl s else s);
          ip = (if s1 \<noteq> [] \<and> hd s1 = CHR ''0'' then ''0'' else takeWhile is_digit s1);
          s2 = drop (length ip) s1;
          has_frac = (s2 \<noteq> [] \<and> hd s2 = CHR ''.'');
          fp = (if has_frac then takeWhile is_digit (tl s2) else []);
          s3 = (if has_frac then drop (Suc (length fp)) s2 else s2);
          has_exp = (s3 \<noteq> [] \<and> (hd s3 = CHR ''e'' \<or> hd s3 = CHR ''E''));
          s4 = (if has_exp then tl s3 else s3);
          eneg = (has_exp \<and> s4 \<noteq> [] \<and> hd s4 = CHR ''-'');
          s5 = (if has_exp \<and> s4 \<noteq> [] \<and> (hd s4 = CHR ''-'' \<or> hd s4 = CHR ''+'') then tl s4 else s4);
          ep = (if has_exp then takeWhile is_digit s5 else []);
          s6 = drop (length ep) s5;
          mant = (of_int (digits_val (ip @ fp)) :: rat) / 10 ^ length fp;
          scaled = (if eneg then mant / 10 ^ nat (digits_val ep) else mant * 10 ^ nat (digits_val ep))
      in if ip = [] \<or> (has_frac \<and> fp = []) \<or> (has_exp \<and> ep = []) then None
         else Some (to_double (if neg then - scaled else scaled), s6))"

definition obj_put :: "string \<Rightarrow> json \<Rightarrow> (string \<times> json) list \<Rightarrow> (string \<times> json) list" where
  "obj_put k v kvs =
     (if k \<in> set (map fst kvs) then map (\<lambda>(k', v'). if k' = k then (k', v) else (k', v')) kvs
      else kvs @ [(k, v)])"

fun parse_value :: "nat \<Rightarrow> string \<Rightarrow> (json \<times> string) option"
  and parse_elements :: "nat \<Rightarrow> string \<Rightarrow> json list \<Rightarrow> (json \<times> string) option"
  and parse_members :: "nat \<Rightarrow> string \<Rightarrow> (string \<times> json) list \<Rightarrow> (json \<times> string) option"
where
  "parse_value 0 s = None"
| "parse_value (Suc n) s =
     (case skip_ws s of
        [] \<Rightarrow> None
      | c # cs \<Rightarrow>
          if c = CHR ''{'' then
            (case skip_ws cs of
               [] \<Rightarrow> None
             | d # ds \<Rightarrow> if d = CHR ''}'' then Some (JObj [], ds) else parse_members n cs [])
          else if c = CHR ''['' then
            (case skip_ws cs of
               [] \<Rightarrow> None
             | d # ds \<Rightarrow> if d = CHR '']'' then Some (JArr [], ds) else parse_elements n cs [])
          else if c = CHR 0x22 then
            (case parse_chars [] cs of
               Some (str, rest) \<Rightarrow> Some (JStr str, rest)
             | None \<Rightarrow> None)
          else if starts_with (c # cs) ''true'' then Some (JBool True, drop 4 (c # cs))
          else if starts_with (c # cs) ''false'' then Some (JBool False, drop 5 (c # cs))
          else if starts_with (c # cs) ''null'' then Some (JNull, drop 4 (c # cs))
          else
            (case parse_number (c # cs) of
               Some (v, rest) \<Rightarrow> Some (v, rest)
             | None \<Rightarrow> None))"
| "parse_elements 0 s acc = None"
| "parse_elements (Suc n) s acc =
     (case parse_value n s of
        None \<Rightarrow> None
      | Some (v, rest) \<Rightarrow>
          (case skip_ws rest of
             [] \<Rightarrow> None
           | d # ds \<Rightarrow>
               if d = CHR '','' then parse_elements n ds (acc @ [v])
               else if d = CHR '']'' then Some (JArr (acc @ [v]), ds)
               else None))"
| "parse_members 0 s acc = None"
| "parse_members (Suc n) s acc =
     (case skip_ws s of
        [] \<Rightarrow> None
      | q # qs \<Rightarrow>
          if q \<noteq> CHR 0x22 then None
          else
            (case parse_chars [] qs of
               None \<Rightarrow> None
             | Some (key, rest) \<Rightarrow>
                 (case skip_ws rest of
                    [] \<Rightarrow> None
                  | colon # after \<Rightarrow>
                      if colon \<noteq> CHR '':'' then None
                      else
                        (case parse_value n after of
                           None \<Rightarrow> None
                         | Some (v, rest') \<Rightarrow>
                             (case skip_ws rest' of
                                [] \<Rightarrow> None
                              | d # ds \<Rightarrow>
                                  if d = CHR '','' then parse_members n ds (obj_put key v acc)
                                  else if d = CHR ''}'' then Some (JObj (obj_put key v acc), ds)
                                  else None)))))"

definition JSON_parse :: "string \<Rightarrow> json option" where
  "JSON_parse s =
     (case parse_value (Suc (length s)) s of
        None \<Rightarrow> None
      | Some (v, rest) \<Rightarrow> if skip_ws rest = [] then Some v else None)"

section \<open>Reading parsed values\<close>

definition get_prop :: "json \<Rightarrow> string \<Rightarrow> json option js_result" where
  \<comment> \<open>\<^verbatim>\<open>v.k\<close> for the names the services read (\<^verbatim>\<open>hasPII\<close>, \<^verbatim>\<open>types\<close>, \<^verbatim>\<open>confidence\<close>), which
      no prototype defines: a TypeError on \<^verbatim>\<open>null\<close>, the own property of an object,
      \<^verbatim>\<open>undefined\<close> on anything else\<close>
  "get_prop v k =
     (case v of
        JNull \<Rightarrow> Thrown ''TypeError''
      | JObj kvs \<Rightarrow> Returned (map_of kvs k)
      | _ \<Rightarrow> Returned None)"

fun truthy :: "json \<Rightarrow> bool" where
  "truthy JNull = False"
| "truthy (JBool b) = b"
| "truthy (JNum q) = (q \<noteq> 0)"
| "truthy (JInf neg) = True"
| "truthy (JStr s) = (s \<noteq> [])"
| "truthy (JArr xs) = True"
| "truthy (JObj kvs) = True"

fun typeof_object :: "json \<Rightarrow> bool" where
  \<comment> \<open>\<^verbatim>\<open>typeof v === 'object'\<close>\<close>
  "typeof_object JNull = True"
| "typeof_object (JArr xs) = True"
| "typeof_object (JObj kvs) = True"
| "typeof_object v = False"

definition array_index :: "string \<Rightarrow> int option" where
  \<comment> \<open>a key that is an array index: a canonical decimal below \<open>2^32 - 1\<close>\<close>
  "array_index k =
     (if k \<noteq> [] \<and> list_all is_digit k \<and> (k = ''0'' \<or> hd k \<noteq> CHR ''0'') \<and> digits_val k < 2 ^ 32 - 1
      then Some (digits_val k) else None)"

definition Object_values :: "json \<Rightarrow> json list" where
  \<comment> \<open>\<^verbatim>\<open>Object.values(item)\<close> of an array or object: the elements of an array; of an
      object the values under array-index keys in ascending order, then the others in
      the order of insertion\<close>
  "Object_values item =
     (case item of
        JArr xs \<Rightarrow> xs
      | JObj kvs \<Rightarrow>
          map snd (sort_key (\<lambda>(k, v). case array_index k of Some i \<Rightarrow> i | None \<Rightarrow> 0)
                     (filter (\<lambda>(k, v). array_index k \<noteq> None) kvs))
          @ map snd (filter (\<lambda>(k, v). array_index k = None) kvs)
      | _ \<Rightarrow> [])"

definition own_prop :: "json \<Rightarrow> string \<Rightarrow> json option" where
  \<comment> \<open>a later read of the same value, which is then known not to be \<^verbatim>\<open>null\<close>\<close>
  "own_prop v k = (case get_prop v k of Returned r \<Rightarrow> r | Thrown e \<Rightarrow> None)"

definition flat :: "json list \<Rightarrow> json list" where
  \<comment> \<open>\<^verbatim>\<open>xs.flat()\<close>: one level of nested arrays is spliced in\<close>
  "flat xs = concat (map (\<lambda>v. case v of JArr ys \<Rightarrow> ys | _ \<Rightarrow> [v]) xs)"

definition Set_spread :: "'a list \<Rightarrow> 'a list" where
  \<comment> \<open>\<^verbatim>\<open>[...new Set(xs)]\<close>: each value once, in the order of its first occurrence\<close>
  "Set_spread xs = foldl (\<lambda>acc x. if x \<in> set acc then acc else acc @ [x]) [] xs"

section \<open>PIIDetector\<close>

text \<open>
  \<^verbatim>\<open>regions\<close> of a result holds \<^verbatim>\<open>{type, coordinates: {x, y, width, height}}\<close>; every
  producer returns it empty. \<^verbatim>\<open>confidence\<close> is declared as one of five strings, but the
  detector copies whatever truthy value the parsed object holds, and \<^verbatim>\<open>types\<close> of a cloud
  result holds whatever the cloud array holds: both are kept as parsed values.
\<close>

type_synonym region = "string \<times> rat \<times> rat \<times> rat \<times> rat"

record PIIResult =
  hasPII :: bool
  confidence :: json
  types :: "json list"
  count :: nat
  regions :: "region list"

definition re_special_token :: regex where
  \<comment> \<open>\<^verbatim>\<open>/<\|.*?\|>/g\<close>\<close>
  "re_special_token = [lit ''<|'' @ [Cls is_dot LazyStar] @ lit ''|>'']"

definition clean_response :: "string \<Rightarrow> string" where
  \<comment> \<open>PIIDetector.ts lines 55 to 76: the text after the last \<^verbatim>\<open></think>\<close>, without special
      tokens and code fences\<close>
  "clean_response response =
     (let analysisText =
            (case lastIndexOf response ''</think>'' of
               Some thinkEndIndex \<Rightarrow> trim (drop (thinkEndIndex + 8) response)
             | None \<Rightarrow> response);
          analysisText = trim (replace_all re_special_token (\<lambda>gs. []) analysisText);
          analysisText =
            trim (replace_all [lit ''```''] (\<lambda>gs. [])
                   (replace_all [lit ''```json''] (\<lambda>gs. []) analysisText))
      in analysisText)"

definition markers :: "string list" where
  "markers = [''final answer:'', ''final:'', ''answer:'', ''result:'']"

definition first_to_last_brace :: "string \<Rightarrow> string option" where
  \<comment> \<open>the span from the first \<^verbatim>\<open>{\<close> to the last \<^verbatim>\<open>}\<close>, when both exist in that order\<close>
  "first_to_last_brace t =
     (case (indexOf t ''{'', lastIndexOf t ''}'') of
        (Some firstOpen, Some lastClose) \<Rightarrow>
          if firstOpen < lastClose then Some (substring t firstOpen (lastClose + 1)) else None
      | _ \<Rightarrow> None)"

fun after_marker :: "string \<Rightarrow> string list \<Rightarrow> string" where
  \<comment> \<open>approach 1: the loop over the markers, left at the first marker that gives a span\<close>
  "after_marker analysisText [] = []"
| "after_marker analysisText (marker # rest) =
     (case lastIndexOf (toLowerCase analysisText) marker of
        None \<Rightarrow> after_marker analysisText rest
      | Some markerIndex \<Rightarrow>
          (case first_to_last_brace (trim (drop (markerIndex + length marker) analysisText)) of
             Some js \<Rightarrow> js
           | None \<Rightarrow> after_marker analysisText rest))"

definition re_hasPII_object :: regex where
  \<comment> \<open>\<^verbatim>\<open>/\{[^{}]*"hasPII"[^{}]*\}/g\<close>\<close>
  \<open>re_hasPII_object =
     [lit ''{'' @ [Cls (none_of ''{}'') Star] @ lit ''"hasPII"'' @ [Cls (none_of ''{}'') Star] @ lit ''}'']\<close>

definition locate_json :: "string \<Rightarrow> string" where
  \<comment> \<open>PIIDetector.ts lines 82 to 116; the empty string when no approach finds an object\<close>
  "locate_json analysisText =
     (let jsonString = after_marker analysisText markers;
          jsonString =
            (if jsonString = [] then
               (let jsonObjects = match_all re_hasPII_object analysisText in
                if jsonObjects \<noteq> [] then last jsonObjects else jsonString)
             else jsonString);
          jsonString =
            (if jsonString = [] then
               (case first_to_last_brace analysisText of Some js \<Rightarrow> js | None \<Rightarrow> jsonString)
             else jsonString)
      in jsonString)"

definition re_unquoted_key :: regex where
  \<comment> \<open>\<^verbatim>\<open>/([{,]\s*)([a-zA-Z0-9_]+)\s*:/g\<close>\<close>
  "re_unquoted_key =
     [[Cls (one_of ''{,'') Once, Cls is_ws Star], [Cls is_word_char Plus], [Cls is_ws Star] @ lit '':'']"

definition re_trailing_comma :: regex where
  \<comment> \<open>\<^verbatim>\<open>/,(\s*[}\]])/g\<close>\<close>
  "re_trailing_comma = [lit '','', [Cls is_ws Star, Cls (one_of ''}]'') Once]]"

definition re_quoted_hasPII :: regex where
  \<comment> \<open>\<^verbatim>\<open>/"hasPII":\s*"([^"]+)"/g\<close>\<close>
  \<open>re_quoted_hasPII =
     [lit ''"hasPII":'' @ [Cls is_ws Star] @ lit ''"'', [Cls (none_of ''"'') Plus], lit ''"'']\<close>

definition re_quoted_confidence :: regex where
  \<comment> \<open>\<^verbatim>\<open>/"confidence":\s*"([^"]+)"/g\<close>\<close>
  \<open>re_quoted_confidence =
     [lit ''"confidence":'' @ [Cls is_ws Star] @ lit ''"'', [Cls (none_of ''"'') Plus], lit ''"'']\<close>

definition re_type_colon :: regex where
  \<comment> \<open>\<^verbatim>\<open>/"([a-z_]+):\s*"/g\<close>\<close>
  \<open>re_type_colon =
     [lit ''"'', [Cls (\<lambda>c. is_lower c \<or> c = CHR ''_'') Plus], lit '':'' @ [Cls is_ws Star] @ lit ''"'']\<close>

definition re_count_quote :: regex where
  \<comment> \<open>\<^verbatim>\<open>/,\s*count"/g\<close>\<close>
  \<open>re_count_quote = [lit '','' @ [Cls is_ws Star] @ lit ''count"'']\<close>

definition repair_json :: "string \<Rightarrow> string" where
  \<comment> \<open>PIIDetector.ts lines 121 to 142, the six replacements in their order\<close>
  \<open>repair_json jsonString =
     (let jsonString = replace_all re_unquoted_key (\<lambda>gs. group gs 0 @ ''"'' @ group gs 1 @ ''":'') jsonString;
          jsonString = replace_all re_trailing_comma (\<lambda>gs. group gs 1) jsonString;
          jsonString = replace_all re_quoted_hasPII (\<lambda>gs. ''"hasPII": '' @ group gs 1) jsonString;
          jsonString = replace_all re_quoted_confidence (\<lambda>gs. ''"confidence": "'' @ group gs 1 @ ''"'') jsonString;
          jsonString = replace_all re_type_colon (\<lambda>gs. ''"'' @ group gs 1 @ ''"'') jsonString;
          jsonString = replace_all re_count_quote (\<lambda>gs. '',"count"'') jsonString
      in jsonString)\<close>

definition re_trailing_colon :: regex where
  \<comment> \<open>\<^verbatim>\<open>/:\s*$/\<close>\<close>
  "re_trailing_colon = [lit '':'' @ [Cls is_ws Star, EndOfInput]]"

definition string_types :: "json list \<Rightarrow> string list" where
  \<comment> \<open>lines 147 to 150: the string elements, trimmed, without a trailing colon, non-empty\<close>
  "string_types ts =
     filter (\<lambda>t. 0 < length t)
       (map (\<lambda>t. replace_first re_trailing_colon (\<lambda>gs. []) (trim t))
          (concat (map (\<lambda>t. case t of JStr s \<Rightarrow> [s] | _ \<Rightarrow> []) ts)))"

definition knownTypes :: "string list" where
  "knownTypes = [''credit_card'', ''ssn'', ''face'', ''address'', ''email'', ''phone'', ''id_card'']"

definition extract_value :: "json \<Rightarrow> string list" where
  \<comment> \<open>lines 176 to 186, what one value of an item pushes\<close>
  "extract_value val =
     (case val of
        JStr v \<Rightarrow>
          (let lowerVal = toLowerCase v in
           case find (\<lambda>t. str_includes lowerVal t \<or> str_includes t lowerVal) knownTypes of
             Some match \<Rightarrow> [match]
           | None \<Rightarrow> [v])
      | _ \<Rightarrow> [])"

definition extract_item :: "json \<Rightarrow> string list" where
  \<comment> \<open>lines 170 to 188, what one element of \<^verbatim>\<open>parsed.types\<close> pushes\<close>
  "extract_item item =
     (case item of
        JStr s \<Rightarrow> [s]
      | JNull \<Rightarrow> []
      | JArr xs \<Rightarrow> concat (map extract_value (flat (Object_values item)))
      | JObj kvs \<Rightarrow> concat (map extract_value (flat (Object_values item)))
      | _ \<Rightarrow> [])"

definition normalize_types :: "json option \<Rightarrow> string list" where
  \<comment> \<open>lines 146 to 193, from the value of \<^verbatim>\<open>parsed.types\<close>\<close>
  "normalize_types parsed_types =
     (case parsed_types of
        Some (JArr ts) \<Rightarrow>
          (let types = string_types ts in
           if ts \<noteq> [] \<and> typeof_object (hd ts) then
             (let extractedTypes = concat (map extract_item ts) in
              if 0 < length extractedTypes then Set_spread extractedTypes else types)
           else types)
      | _ \<Rightarrow> [])"

definition validated_result :: "json \<Rightarrow> PIIResult js_result" where
  \<comment> \<open>lines 146 to 214: the result built from the parsed value, or the TypeError of a
      property read on \<^verbatim>\<open>null\<close>\<close>
  "validated_result parsed =
     (case get_prop parsed ''types'' of
        Thrown e \<Rightarrow> Thrown e
      | Returned parsed_types \<Rightarrow>
          (let types = normalize_types parsed_types;
               hasPII = (own_prop parsed ''hasPII'' = Some (JBool True) \<and> 0 < length types);
               types = (if \<not> hasPII then [] else types)
           in Returned \<lparr> hasPII = hasPII,
                 confidence = (case own_prop parsed ''confidence'' of
                                 Some c \<Rightarrow> if truthy c then c else JStr ''medium''
                               | None \<Rightarrow> JStr ''medium''),
                 types = map JStr types,
                 count = length types,
                 regions = [] \<rparr>))"

definition hasNegative :: "string \<Rightarrow> string \<Rightarrow> bool" where
  \<comment> \<open>lines 278 to 288: a negation word within the 30 characters before the first
      occurrence of the keyword\<close>
  "hasNegative text trm =
     (case indexOf text trm of
        None \<Rightarrow> False
      | Some idx \<Rightarrow>
          (let preceding = substring text (nat (max 0 (int idx - 30))) idx in
           str_includes preceding ''no '' \<or> str_includes preceding ''not '' \<or>
           str_includes preceding ''0 '' \<or> str_includes preceding ''zero ''))"

definition sep :: piece where
  \<comment> \<open>\<^verbatim>\<open>[-\s]?\<close>\<close>
  "sep = Cls (\<lambda>c. c = CHR ''-'' \<or> is_ws c) Optional"

definition ssnPattern :: regex where
  \<comment> \<open>\<^verbatim>\<open>/\d{3}[-\s]?\d{2}[-\s]?\d{4}/\<close>\<close>
  "ssnPattern =
     [replicate 3 (Cls is_digit Once) @ [sep] @ replicate 2 (Cls is_digit Once) @ [sep]
      @ replicate 4 (Cls is_digit Once)]"

definition ccPattern :: regex where
  \<comment> \<open>\<^verbatim>\<open>/\d{4}[-\s]?\d{4}[-\s]?\d{4}[-\s]?\d{4}/\<close>\<close>
  "ccPattern =
     [replicate 4 (Cls is_digit Once) @ [sep] @ replicate 4 (Cls is_digit Once) @ [sep]
      @ replicate 4 (Cls is_digit Once) @ [sep] @ replicate 4 (Cls is_digit Once)]"

definition strongKeywords :: "string list" where
  "strongKeywords =
     [''social security'', ''credit card'', ''ssn'', ''card number'', ''driver license'',
      ''passport'', ''national secretary'', ''secretary of state'']"

definition says_no_pii :: "string \<Rightarrow> bool" where
  \<comment> \<open>lines 246 to 251, on the lower-cased description\<close>
  "says_no_pii lowerDesc =
     (str_includes lowerDesc ''no visible text'' \<or> str_includes lowerDesc ''do not see any'' \<or>
      str_includes lowerDesc ''no pii'' \<or> str_includes lowerDesc ''no personal information'')"

definition detect_types :: "string \<Rightarrow> string \<Rightarrow> string list" where
  \<comment> \<open>lines 290 to 372: \<^verbatim>\<open>detectedTypes\<close> after each conditional push, in the order of
      the source\<close>
  "detect_types analysisText description =
     (let lowerText = toLowerCase analysisText;
          lowerDesc = toLowerCase description;
          d = [];
          d = (if regex_test ssnPattern description \<or> regex_test ssnPattern analysisText
               then d @ [''ssn''] else d);
          d = (if regex_test ccPattern description \<or> regex_test ccPattern analysisText
               then d @ [''credit_card''] else d);
          d = (if ''credit_card'' \<notin> set d \<and>
                  (str_includes lowerText ''credit card'' \<or> str_includes lowerText ''card number'' \<or>
                   str_includes lowerText ''visa'' \<or> str_includes lowerText ''mastercard'') \<and>
                  \<not> hasNegative lowerText ''credit card'' \<and>
                  \<not> hasNegative lowerText ''card number''
               then d @ [''credit_card''] else d);
          d = (if ''ssn'' \<notin> set d \<and>
                  (str_includes lowerText ''ssn'' \<or> str_includes lowerText ''social security'' \<or>
                   str_includes lowerText ''sociat seourity'' \<or>
                   str_includes lowerText ''national secretary'' \<or>
                   str_includes lowerText ''secretary of state'' \<or>
                   str_includes lowerText ''passport'') \<and>
                  \<not> hasNegative lowerText ''ssn'' \<and>
                  \<not> hasNegative lowerText ''social security'' \<and>
                  \<not> hasNegative lowerText ''passport''
               then d @ [''ssn''] else d);
          d = (if str_includes lowerText ''face'' \<and> \<not> hasNegative lowerText ''face'' \<and>
                  \<not> str_includes lowerText ''surface'' \<and> \<not> str_includes lowerText ''interface''
               then (if \<not> str_includes lowerDesc ''flower'' \<and> \<not> str_includes lowerDesc ''nature'' \<and>
                        \<not> str_includes lowerDesc ''plant''
                     then d @ [''face''] else d)
               else d);
          d = (if str_includes lowerText ''address'' \<and> \<not> hasNegative lowerText ''address'' \<and>
                  \<not> str_includes lowerText ''ip address''
               then d @ [''address''] else d);
          d = (if str_includes lowerText ''email'' \<and> \<not> hasNegative lowerText ''email''
               then d @ [''email''] else d);
          d = (if str_includes lowerText ''phone'' \<and> \<not> hasNegative lowerText ''phone'' \<and>
                  \<not> str_includes lowerText ''microphone''
               then d @ [''phone''] else d);
          d = (if (str_includes lowerText ''driver'' \<and> str_includes lowerText ''license'') \<or>
                  str_includes lowerText ''id card'' \<or> str_includes lowerText ''government id''
               then (if ''ssn'' \<notin> set d then d @ [''id_card''] else d)
               else d)
      in d)"

definition short_circuit :: "string \<Rightarrow> string \<Rightarrow> bool" where
  \<comment> \<open>lines 246 to 267: the description says that nothing is there, and the analysis
      text holds no strong keyword\<close>
  "short_circuit analysisText description =
     (says_no_pii (toLowerCase description) \<and>
      \<not> list_ex (\<lambda>kw. str_includes (toLowerCase analysisText) kw) strongKeywords)"

definition fallbackDetection :: "string \<Rightarrow> string \<Rightarrow> PIIResult" where
  \<comment> \<open>PIIDetector.ts lines 237 to 381\<close>
  "fallbackDetection analysisText description =
     (if short_circuit analysisText description
      then \<lparr> hasPII = False, confidence = JStr ''medium'', types = [], count = 0, regions = [] \<rparr>
      else (let detectedTypes = detect_types analysisText description
            in \<lparr> hasPII = 0 < length detectedTypes,
                  confidence = JStr ''low'',
                  types = map JStr detectedTypes,
                  count = length detectedTypes,
                  regions = [] \<rparr>))"

definition parse_and_validate :: "string \<Rightarrow> PIIResult js_result" where
  \<comment> \<open>the inner \<^verbatim>\<open>try\<close> block, lines 120 to 214: a SyntaxError of \<^verbatim>\<open>JSON.parse\<close> or the
      result built from the parsed value\<close>
  "parse_and_validate jsonString =
     (case JSON_parse (repair_json jsonString) of
        None \<Rightarrow> Thrown ''SyntaxError''
      | Some parsed \<Rightarrow> validated_result parsed)"

definition errorResult :: PIIResult where
  "errorResult = \<lparr> hasPII = False, confidence = JStr ''error'', types = [], count = 0, regions = [] \<rparr>"

definition analyzeDescription :: "string js_result \<Rightarrow> string \<Rightarrow> PIIResult" where
  \<comment> \<open>PIIDetector.ts lines 19 to 235. The first argument is what the awaited
      \<^verbatim>\<open>textLM.complete\<close> gives for the prompt built from the description: its
      \<^verbatim>\<open>response\<close> text, or a thrown error (also the TypeError of a response that is
      no string), which the outer \<^verbatim>\<open>catch\<close> absorbs.\<close>
  "analyzeDescription completion description =
     (case completion of
        Thrown e \<Rightarrow> errorResult
      | Returned response \<Rightarrow>
          (let analysisText = clean_response response;
               jsonString = locate_json analysisText
           in if jsonString \<noteq> [] then
                (case parse_and_validate jsonString of
                   Returned r \<Rightarrow> r
                 | Thrown parseError \<Rightarrow> fallbackDetection analysisText description)
              else fallbackDetection analysisText description))"

section \<open>HybridInference\<close>

text \<open>
  \<open>textLM\<close> gives, for a description, the outcome of the on-device completion of the
  analysis prompt; \<open>cloud\<close> gives the outcome of \<^verbatim>\<open>CloudInference.analyzeDescription\<close>: a
  parsed value or a thrown error. A run of \<^verbatim>\<open>analyze\<close> is its outcome together with the
  descriptions it sent to the cloud verifier.
\<close>

record analyze_run =
  outcome :: "PIIResult js_result"
  cloudRequests :: "string list"

definition cloud_types :: "json \<Rightarrow> json list" where
  \<comment> \<open>\<^verbatim>\<open>Array.isArray(cloudJson.types) ? cloudJson.types : []\<close>\<close>
  "cloud_types cloudJson = (case own_prop cloudJson ''types'' of Some (JArr ts) \<Rightarrow> ts | _ \<Rightarrow> [])"

definition cloudResult_of :: "json \<Rightarrow> PIIResult js_result" where
  \<comment> \<open>HybridInference.ts lines 66 to 73; reading a property of \<^verbatim>\<open>null\<close> throws\<close>
  "cloudResult_of cloudJson =
     (case get_prop cloudJson ''types'' of
        Thrown e \<Rightarrow> Thrown e
      | Returned t \<Rightarrow>
          (let types = cloud_types cloudJson
           in Returned \<lparr> hasPII = (own_prop cloudJson ''hasPII'' = Some (JBool True)),
                 confidence = JStr ''high'',
                 types = types,
                 count = length types,
                 regions = [] \<rparr>))"

definition merge_results :: "PIIResult \<Rightarrow> PIIResult \<Rightarrow> PIIResult" where
  \<comment> \<open>lines 77 to 95\<close>
  "merge_results localResult cloudResult =
     (if hasPII cloudResult \<and> \<not> hasPII localResult then cloudResult
      else if hasPII localResult \<and> \<not> hasPII cloudResult
        then localResult \<lparr> confidence := JStr ''high'' \<rparr>
      else cloudResult)"

definition verify_with_cloud :: "PIIResult \<Rightarrow> json js_result \<Rightarrow> PIIResult js_result" where
  \<comment> \<open>the \<^verbatim>\<open>try\<close> block, lines 61 to 95\<close>
  "verify_with_cloud localResult response =
     (case response of
        Thrown e \<Rightarrow> Thrown e
      | Returned cloudJson \<Rightarrow>
          (case cloudResult_of cloudJson of
             Thrown e \<Rightarrow> Thrown e
           | Returned cloudResult \<Rightarrow> Returned (merge_results localResult cloudResult)))"

definition analyze ::
  "(string \<Rightarrow> string js_result) \<Rightarrow> (string \<Rightarrow> json js_result) \<Rightarrow> string \<Rightarrow> bool \<Rightarrow> analyze_run" where
  \<comment> \<open>HybridInference.ts lines 35 to 137\<close>
  "analyze textLM cloud description allowCloud =
     (let localResult = analyzeDescription (textLM description) description
      in if confidence localResult = JStr ''high'' then
           \<lparr> outcome = Returned localResult, cloudRequests = [] \<rparr>
         else if allowCloud \<and>
                 (confidence localResult = JStr ''medium'' \<or> confidence localResult = JStr ''low'') then
           (case verify_with_cloud localResult (cloud description) of
              Returned r \<Rightarrow> \<lparr> outcome = Returned r, cloudRequests = [description] \<rparr>
            | Thrown error \<Rightarrow> \<lparr> outcome = Returned localResult, cloudRequests = [description] \<rparr>)
         else \<lparr> outcome = Returned localResult, cloudRequests = [] \<rparr>)"

section \<open>ImageRedactor\<close>

record RedactionRegion =
  region_x :: rat
  region_y :: rat
  region_width :: rat
  region_height :: rat
  region_type :: string

definition knownTypes_redactor :: "string list" where
  "knownTypes_redactor =
     [''ssn'', ''social_security_card'', ''credit_card'', ''face'', ''address'', ''id_card'',
      ''email'', ''phone'']"

definition is_known :: "json \<Rightarrow> bool" where
  \<comment> \<open>\<^verbatim>\<open>knownTypes.includes(t)\<close>\<close>
  "is_known t = (case t of JStr s \<Rightarrow> s \<in> set knownTypes_redactor | _ \<Rightarrow> False)"

definition getRedactionRegions :: "json list \<Rightarrow> RedactionRegion list" where
  \<comment> \<open>ImageRedactor.getRedactionRegions, lines 26 to 124; \<^verbatim>\<open>piiTypes.includes('ssn')\<close> is
      membership of the string\<close>
  "getRedactionRegions piiTypes =
     (let regions = [];
          regions = (if JStr ''ssn'' \<in> set piiTypes \<or> JStr ''social_security_card'' \<in> set piiTypes
            then regions @ [\<lparr> region_x = 0.15, region_y = 0.3, region_width = 0.7,
                              region_height = 0.2, region_type = ''ssn'' \<rparr>] else regions);
          regions = (if JStr ''credit_card'' \<in> set piiTypes
            then regions @ [\<lparr> region_x = 0.05, region_y = 0.35, region_width = 0.9,
                              region_height = 0.35, region_type = ''credit_card'' \<rparr>] else regions);
          regions = (if JStr ''face'' \<in> set piiTypes
            then regions @ [\<lparr> region_x = 0.1, region_y = 0.1, region_width = 0.4,
                              region_height = 0.45, region_type = ''face'' \<rparr>] else regions);
          regions = (if JStr ''address'' \<in> set piiTypes
            then regions @ [\<lparr> region_x = 0.05, region_y = 0.55, region_width = 0.9,
                              region_height = 0.25, region_type = ''address'' \<rparr>] else regions);
          regions = (if JStr ''id_card'' \<in> set piiTypes
            then regions @ [\<lparr> region_x = 0.02, region_y = 0.05, region_width = 0.96,
                              region_height = 0.9, region_type = ''id_card'' \<rparr>] else regions);
          regions = (if JStr ''email'' \<in> set piiTypes \<or> JStr ''phone'' \<in> set piiTypes
            then regions @ [\<lparr> region_x = 0.05, region_y = 0.7, region_width = 0.9,
                              region_height = 0.2, region_type = ''contact_info'' \<rparr>] else regions);
          otherTypes = filter (\<lambda>t. \<not> is_known t) piiTypes;
          regions = (if 0 < length otherTypes \<or> 3 \<le> length piiTypes
            then regions @ [\<lparr> region_x = 0.02, region_y = 0.02, region_width = 0.96,
                              region_height = 0.96, region_type = ''comprehensive'' \<rparr>] else regions)
      in regions)"

section \<open>Facts about the detector\<close>

text \<open>
  Every result of the local detector, whichever path built it, has \<^verbatim>\<open>hasPII\<close> true exactly
  when \<^verbatim>\<open>types\<close> is non-empty, and \<^verbatim>\<open>count\<close> equal to the length of \<^verbatim>\<open>types\<close>.
\<close>

lemma fallback_invariant:
  "hasPII (fallbackDetection a d) = (types (fallbackDetection a d) \<noteq> []) \<and>
   hasPII (fallbackDetection a d) = (0 < count (fallbackDetection a d)) \<and>
   count (fallbackDetection a d) = length (types (fallbackDetection a d))"
  by (simp add: fallbackDetection_def Let_def)

lemma validated_invariant:
  assumes "validated_result parsed = Returned r"
  shows "hasPII r = (types r \<noteq> []) \<and> hasPII r = (0 < count r) \<and> count r = length (types r)"
  using assms
  by (auto simp: validated_result_def Let_def split: js_result.splits if_splits)

lemma analyzeDescription_invariant:
  "hasPII (analyzeDescription c d) = (types (analyzeDescription c d) \<noteq> []) \<and>
   hasPII (analyzeDescription c d) = (0 < count (analyzeDescription c d)) \<and>
   count (analyzeDescription c d) = length (types (analyzeDescription c d))"
proof (cases c)
  case (Thrown e)
  then show ?thesis by (simp add: analyzeDescription_def errorResult_def)
next
  case (Returned response)
  show ?thesis
  proof (cases "locate_json (clean_response response) \<noteq> [] \<and>
                (\<exists>r. parse_and_validate (locate_json (clean_response response)) = Returned r)")
    case True
    then obtain r where r: "parse_and_validate (locate_json (clean_response response)) = Returned r"
      and ne: "locate_json (clean_response response) \<noteq> []" by blast
    from r have "\<exists>p. validated_result p = Returned r"
      by (auto simp: parse_and_validate_def split: option.splits)
    then have "hasPII r = (types r \<noteq> []) \<and> hasPII r = (0 < count r) \<and> count r = length (types r)"
      using validated_invariant by blast
    moreover have "analyzeDescription c d = r"
      using Returned r ne by (simp add: analyzeDescription_def Let_def)
    ultimately show ?thesis by simp
  next
    case False
    then have "analyzeDescription c d = fallbackDetection (clean_response response) d"
      using Returned by (auto simp: analyzeDescription_def Let_def split: js_result.splits)
    then show ?thesis using fallback_invariant by simp
  qed
qed

lemma Set_spread_distinct_aux:
  "distinct acc \<Longrightarrow> distinct (foldl (\<lambda>acc x. if x \<in> set acc then acc else acc @ [x]) acc xs)"
  by (induction xs arbitrary: acc) auto

lemma Set_spread_distinct: "distinct (Set_spread xs)"
  by (simp add: Set_spread_def Set_spread_distinct_aux)

lemma analyze_never_throws: "\<exists>r. outcome (analyze textLM cloud description allowCloud) = Returned r"
  by (simp add: analyze_def Let_def split: js_result.splits)

text \<open>
  The fallback pushes each category at most once, and the path for \<^verbatim>\<open>types\<close> given as
  objects goes through a set: both give types without duplicates.
\<close>

lemma push_new: "distinct d \<Longrightarrow> x \<notin> set d \<Longrightarrow> distinct (d @ [x])"
  by simp

lemma detect_types_distinct: "distinct (detect_types a d)"
proof -
  define lowerText where "lowerText = toLowerCase a"
  define lowerDesc where "lowerDesc = toLowerCase d"
  define d1 where "d1 = (if regex_test ssnPattern d \<or> regex_test ssnPattern a
               then [] @ [''ssn''] else [])"
  define d2 where "d2 = (if regex_test ccPattern d \<or> regex_test ccPattern a
               then d1 @ [''credit_card''] else d1)"
  define d3 where "d3 = (if ''credit_card'' \<notin> set d2 \<and>
                  (str_includes lowerText ''credit card'' \<or> str_includes lowerText ''card number'' \<or>
                   str_includes lowerText ''visa'' \<or> str_includes lowerText ''mastercard'') \<and>
                  \<not> hasNegative lowerText ''credit card'' \<and>
                  \<not> hasNegative lowerText ''card number''
               then d2 @ [''credit_card''] else d2)"
  define d4 where "d4 = (if ''ssn'' \<notin> set d3 \<and>
                  (str_includes lowerText ''ssn'' \<or> str_includes lowerText ''social security'' \<or>
                   str_includes lowerText ''sociat seourity'' \<or>
                   str_includes lowerText ''national secretary'' \<or>
                   str_includes lowerText ''secretary of state'' \<or>
                   str_includes lowerText ''passport'') \<and>
                  \<not> hasNegative lowerText ''ssn'' \<and>
                  \<not> hasNegative lowerText ''social security'' \<and>
                  \<not> hasNegative lowerText ''passport''
               then d3 @ [''ssn''] else d3)"
  define d5 where "d5 = (if str_includes lowerText ''face'' \<and> \<not> hasNegative lowerText ''face'' \<and>
                  \<not> str_includes lowerText ''surface'' \<and> \<not> str_includes lowerText ''interface''
               then (if \<not> str_includes lowerDesc ''flower'' \<and> \<not> str_includes lowerDesc ''nature'' \<and>
                        \<not> str_includes lowerDesc ''plant''
                     then d4 @ [''face''] else d4)
               else d4)"
  define d6 where "d6 = (if str_includes lowerText ''address'' \<and> \<not> hasNegative lowerText ''address'' \<and>
                  \<not> str_includes lowerText ''ip address''
               then d5 @ [''address''] else d5)"
  define d7 where "d7 = (if str_includes lowerText ''email'' \<and> \<not> hasNegative lowerText ''email''
               then d6 @ [''email''] else d6)"
  define d8 where "d8 = (if str_includes lowerText ''phone'' \<and> \<not> hasNegative lowerText ''phone'' \<and>
                  \<not> str_includes lowerText ''microphone''
               then d7 @ [''phone''] else d7)"
  define d9 where "d9 = (if (str_includes lowerText ''driver'' \<and> str_includes lowerText ''license'') \<or>
                  str_includes lowerText ''id card'' \<or> str_includes lowerText ''government id''
               then (if ''ssn'' \<notin> set d8 then d8 @ [''id_card''] else d8)
               else d8)"
  have eq: "detect_types a d = d9"
    unfolding detect_types_def Let_def d9_def d8_def d7_def d6_def d5_def d4_def d3_def d2_def d1_def
      lowerText_def lowerDesc_def ..
  have s1: "distinct d1 \<and> set d1 \<inter> set [''credit_card'', ''face'', ''address'', ''email'', ''phone'', ''id_card''] = {}"
    by (simp add: d1_def)
  have s2: "distinct d2 \<and> set d2 \<inter> set [''face'', ''address'', ''email'', ''phone'', ''id_card''] = {}"
    using s1 by (simp add: d2_def)
  have s3: "distinct d3 \<and> set d3 \<inter> set [''face'', ''address'', ''email'', ''phone'', ''id_card''] = {}"
    using s2 by (simp add: d3_def)
  have s4: "distinct d4 \<and> set d4 \<inter> set [''face'', ''address'', ''email'', ''phone'', ''id_card''] = {}"
    using s3 by (simp add: d4_def)
  have s5: "distinct d5 \<and> set d5 \<inter> set [''address'', ''email'', ''phone'', ''id_card''] = {}"
    using s4 by (simp add: d5_def)
  have s6: "distinct d6 \<and> set d6 \<inter> set [''email'', ''phone'', ''id_card''] = {}"
    using s5 by (simp add: d6_def)
  have s7: "distinct d7 \<and> set d7 \<inter> set [''phone'', ''id_card''] = {}"
    using s6 by (simp add: d7_def)
  have s8: "distinct d8 \<and> set d8 \<inter> set [''id_card''] = {}"
    using s7 by (simp add: d8_def)
  have s9: "distinct d9"
    using s8 by (simp add: d9_def)
  show ?thesis using eq s9 by simp
qed

lemma fallback_types_distinct: "distinct (types (fallbackDetection a d))"
  by (simp add: fallbackDetection_def Let_def distinct_map detect_types_distinct inj_on_def)

lemma object_path_distinct:
  assumes "ts \<noteq> []" and "typeof_object (hd ts)" and "concat (map extract_item ts) \<noteq> []"
  shows "distinct (normalize_types (Some (JArr ts)))"
  using assms by (simp add: normalize_types_def Let_def Set_spread_distinct)

text \<open>
  A cloud response \<^verbatim>\<open>null\<close> makes the conversion throw inside the \<^verbatim>\<open>try\<close> block, and is
  handled like a failed call.
\<close>

lemma analyze_cloud_null_returns_local:
  assumes "confidence (analyzeDescription (textLM description) description) = JStr ''medium'' \<or>
           confidence (analyzeDescription (textLM description) description) = JStr ''low''"
    and "cloud description = Returned JNull"
  shows "analyze textLM cloud description True =
           \<lparr> outcome = Returned (analyzeDescription (textLM description) description),
              cloudRequests = [description] \<rparr>"
  using assms
  by (auto simp: analyze_def Let_def verify_with_cloud_def cloudResult_of_def get_prop_def)

text \<open>Completions used as concrete inputs below, and what the detector makes of them.\<close>

lemma local_high_sample:
  \<open>analyzeDescription (Returned ''{"confidence":"high"}'') ''tree'' =
     \<lparr> hasPII = False, confidence = JStr ''high'', types = [], count = 0, regions = [] \<rparr>\<close>
  by code_simp

lemma local_unknown_sample:
  \<open>analyzeDescription (Returned ''{"confidence":"unknown"}'') ''tree'' =
     \<lparr> hasPII = False, confidence = JStr ''unknown'', types = [], count = 0, regions = [] \<rparr>\<close>
  by code_simp

lemma local_ssn_sample:
  \<open>analyzeDescription (Returned ''ssn'') ''card'' =
     \<lparr> hasPII = True, confidence = JStr ''low'', types = [JStr ''ssn''], count = 1, regions = [] \<rparr>\<close>
  by code_simp

lemma local_clean_sample:
  \<open>analyzeDescription (Returned ''ok'') ''tree'' =
     \<lparr> hasPII = False, confidence = JStr ''low'', types = [], count = 0, regions = [] \<rparr>\<close>
  by code_simp

section \<open>The arbiter\<close>

text \<open>
  C2. For every description, every cloud verifier and every value of the flag: when the
  local detector returns a result of confidence \<^verbatim>\<open>high\<close>, \<^verbatim>\<open>analyze\<close> returns that result
  unchanged and sends nothing to the cloud verifier.
\<close>

theorem analyze_local_high_returns_local:
  assumes "confidence (analyzeDescription (textLM description) description) = JStr ''high''"
  shows "analyze textLM cloud description allowCloud =
           \<lparr> outcome = Returned (analyzeDescription (textLM description) description),
              cloudRequests = [] \<rparr>"
  using assms by (simp add: analyze_def)

theorem analyze_local_high_returns_local_witness:
  \<open>confidence (analyzeDescription ((\<lambda>d. Returned ''{"confidence":"high"}'') ''tree'') ''tree'') = JStr ''high'' \<and>
   analyze (\<lambda>d. Returned ''{"confidence":"high"}'')
       (\<lambda>d. Returned (JObj [(''hasPII'', JBool True), (''types'', JArr [JStr ''face''])])) ''tree'' True =
     \<lparr> outcome = Returned \<lparr> hasPII = False, confidence = JStr ''high'', types = [], count = 0, regions = [] \<rparr>,
        cloudRequests = [] \<rparr>\<close>
proof -
  have h: \<open>confidence (analyzeDescription ((\<lambda>d. Returned ''{"confidence":"high"}'') ''tree'') ''tree'') = JStr ''high''\<close>
    by (simp add: local_high_sample)
  from analyze_local_high_returns_local [OF h] show ?thesis
    by (simp add: local_high_sample)
qed

text \<open>
  C3. When escalation runs (the flag is set, the local confidence is \<^verbatim>\<open>medium\<close> or
  \<^verbatim>\<open>low\<close> and the cloud verifier returns), the local result has \<^verbatim>\<open>hasPII\<close> true and the
  cloud response has \<^verbatim>\<open>hasPII\<close> false, \<^verbatim>\<open>analyze\<close> returns the local result with its
  confidence set to \<^verbatim>\<open>high\<close> and every other field kept.
\<close>

theorem analyze_local_wins_over_cloud_negative:
  assumes "confidence (analyzeDescription (textLM description) description) = JStr ''medium'' \<or>
           confidence (analyzeDescription (textLM description) description) = JStr ''low''"
    and "hasPII (analyzeDescription (textLM description) description)"
    and "cloud description = Returned cloudJson"
    and "get_prop cloudJson ''hasPII'' = Returned (Some (JBool False))"
  shows "analyze textLM cloud description True =
           \<lparr> outcome = Returned ((analyzeDescription (textLM description) description)
                                   \<lparr> confidence := JStr ''high'' \<rparr>),
              cloudRequests = [description] \<rparr>"
proof -
  from assms(4) have nn: "get_prop cloudJson ''types'' \<noteq> Thrown ''TypeError''"
    and np: "own_prop cloudJson ''hasPII'' = Some (JBool False)"
    by (auto simp: get_prop_def own_prop_def split: json.splits)
  from nn obtain t where t: "get_prop cloudJson ''types'' = Returned t"
    by (cases cloudJson) (auto simp: get_prop_def)
  show ?thesis
    using assms(1,2,3) t np
    by (auto simp: analyze_def Let_def verify_with_cloud_def cloudResult_of_def merge_results_def)
qed

theorem analyze_local_wins_over_cloud_negative_witness:
  \<open>analyze (\<lambda>d. Returned ''ssn'')
       (\<lambda>d. Returned (JObj [(''hasPII'', JBool False), (''types'', JArr [])])) ''card'' True =
     \<lparr> outcome = Returned \<lparr> hasPII = True, confidence = JStr ''high'', types = [JStr ''ssn''], count = 1, regions = [] \<rparr>,
        cloudRequests = [''card''] \<rparr>\<close>
proof -
  have 1: \<open>confidence (analyzeDescription ((\<lambda>d. Returned ''ssn'') ''card'') ''card'') = JStr ''medium'' \<or>
           confidence (analyzeDescription ((\<lambda>d. Returned ''ssn'') ''card'') ''card'') = JStr ''low''\<close>
    by (simp add: local_ssn_sample)
  have 2: \<open>hasPII (analyzeDescription ((\<lambda>d. Returned ''ssn'') ''card'') ''card'')\<close>
    by (simp add: local_ssn_sample)
  have 3: \<open>(\<lambda>d. Returned (JObj [(''hasPII'', JBool False), (''types'', JArr [])])) ''card''
            = Returned (JObj [(''hasPII'', JBool False), (''types'', JArr [])])\<close>
    by simp
  have 4: \<open>get_prop (JObj [(''hasPII'', JBool False), (''types'', JArr [])]) ''hasPII'' = Returned (Some (JBool False))\<close>
    by (simp add: get_prop_def)
  from analyze_local_wins_over_cloud_negative [OF 1 2 3 4] show ?thesis
    by (simp add: local_ssn_sample)
qed



text \<open>
  When the cloud response has \<^verbatim>\<open>hasPII\<close> true and its \<^verbatim>\<open>types\<close> is missing or no array, the
  result has \<^verbatim>\<open>hasPII\<close> true with no types and \<^verbatim>\<open>count\<close> 0.
\<close>

lemma analyze_cloud_types_not_array:
  assumes "confidence (analyzeDescription (textLM description) description) = JStr ''medium'' \<or>
           confidence (analyzeDescription (textLM description) description) = JStr ''low''"
    and "\<not> hasPII (analyzeDescription (textLM description) description)"
    and "cloud description = Returned cloudJson"
    and "get_prop cloudJson ''hasPII'' = Returned (Some (JBool True))"
    and "\<And>ts. get_prop cloudJson ''types'' \<noteq> Returned (Some (JArr ts))"
  shows "analyze textLM cloud description True =
           \<lparr> outcome = Returned \<lparr> hasPII = True, confidence = JStr ''high'',
                                  types = [], count = 0, regions = [] \<rparr>,
              cloudRequests = [description] \<rparr>"
proof -
  from assms(4) obtain kvs where obj: "cloudJson = JObj kvs"
    by (cases cloudJson) (auto simp: get_prop_def)
  from assms(4) have hp: "own_prop cloudJson ''hasPII'' = Some (JBool True)"
    by (simp add: own_prop_def)
  from assms(5) obj have ty: "cloud_types cloudJson = []"
    by (auto simp: cloud_types_def own_prop_def get_prop_def split: option.splits json.splits)
  have "cloudResult_of cloudJson =
      Returned \<lparr> hasPII = True, confidence = JStr ''high'', types = [], count = 0, regions = [] \<rparr>"
    using obj hp ty by (simp add: cloudResult_of_def Let_def get_prop_def)
  then have "verify_with_cloud (analyzeDescription (textLM description) description) (cloud description) =
      Returned \<lparr> hasPII = True, confidence = JStr ''high'', types = [], count = 0, regions = [] \<rparr>"
    using assms(2,3) by (simp add: verify_with_cloud_def merge_results_def)
  then show ?thesis
    using assms(1) by (auto simp: analyze_def Let_def)
qed

text \<open>
  C5. When escalation is attempted and the call of the cloud verifier throws, whatever
  the error, \<^verbatim>\<open>analyze\<close> returns normally, and what it returns is the local result
  unchanged.
\<close>

theorem analyze_cloud_failure_returns_local:
  assumes "confidence (analyzeDescription (textLM description) description) = JStr ''medium'' \<or>
           confidence (analyzeDescription (textLM description) description) = JStr ''low''"
    and "cloud description = Thrown e"
  shows "analyze textLM cloud description True =
           \<lparr> outcome = Returned (analyzeDescription (textLM description) description),
              cloudRequests = [description] \<rparr>"
  using assms by (auto simp: analyze_def Let_def verify_with_cloud_def)

theorem analyze_cloud_failure_returns_local_witness:
  \<open>analyze (\<lambda>d. Returned ''ssn'') (\<lambda>d. Thrown ''Cloud service timeout (free tier may be sleeping)'') ''card'' True =
     \<lparr> outcome = Returned \<lparr> hasPII = True, confidence = JStr ''low'', types = [JStr ''ssn''], count = 1, regions = [] \<rparr>,
        cloudRequests = [''card''] \<rparr>\<close>
proof -
  have 1: \<open>confidence (analyzeDescription ((\<lambda>d. Returned ''ssn'') ''card'') ''card'') = JStr ''medium'' \<or>
           confidence (analyzeDescription ((\<lambda>d. Returned ''ssn'') ''card'') ''card'') = JStr ''low''\<close>
    by (simp add: local_ssn_sample)
  have 2: \<open>(\<lambda>d. Thrown ''Cloud service timeout (free tier may be sleeping)'') ''card''
             = Thrown ''Cloud service timeout (free tier may be sleeping)''\<close>
    by simp
  from analyze_cloud_failure_returns_local [OF 1 2] show ?thesis
    by (simp add: local_ssn_sample)
qed

text \<open>
  C10. Whatever the flag, when the local result has confidence \<^verbatim>\<open>unknown\<close> or \<^verbatim>\<open>error\<close>,
  \<^verbatim>\<open>analyze\<close> returns it unchanged and sends nothing to the cloud verifier; so the
  result that absorbs a provider error is never sent for verification.
\<close>

theorem analyze_unknown_or_error_returns_local:
  assumes "confidence (analyzeDescription (textLM description) description) = JStr ''unknown'' \<or>
           confidence (analyzeDescription (textLM description) description) = JStr ''error''"
  shows "analyze textLM cloud description allowCloud =
           \<lparr> outcome = Returned (analyzeDescription (textLM description) description),
              cloudRequests = [] \<rparr>"
  using assms by (auto simp: analyze_def Let_def)

theorem analyze_unknown_or_error_returns_local_witness:
  \<open>analyze (\<lambda>d. Thrown ''std::runtime_error'')
       (\<lambda>d. Returned (JObj [(''hasPII'', JBool True), (''types'', JArr [JStr ''face''])])) ''tree'' True =
     \<lparr> outcome = Returned \<lparr> hasPII = False, confidence = JStr ''error'', types = [], count = 0, regions = [] \<rparr>,
        cloudRequests = [] \<rparr> \<and>
   analyze (\<lambda>d. Returned ''{"confidence":"unknown"}'')
       (\<lambda>d. Returned (JObj [(''hasPII'', JBool True), (''types'', JArr [JStr ''face''])])) ''tree'' True =
     \<lparr> outcome = Returned \<lparr> hasPII = False, confidence = JStr ''unknown'', types = [], count = 0, regions = [] \<rparr>,
        cloudRequests = [] \<rparr>\<close>
proof -
  have e: \<open>analyzeDescription ((\<lambda>d. Thrown ''std::runtime_error'') ''tree'') ''tree'' = errorResult\<close>
    by (simp add: analyzeDescription_def)
  have 1: \<open>confidence (analyzeDescription ((\<lambda>d. Thrown ''std::runtime_error'') ''tree'') ''tree'') = JStr ''unknown'' \<or>
           confidence (analyzeDescription ((\<lambda>d. Thrown ''std::runtime_error'') ''tree'') ''tree'') = JStr ''error''\<close>
    by (simp add: e errorResult_def)
  have 2: \<open>confidence (analyzeDescription ((\<lambda>d. Returned ''{"confidence":"unknown"}'') ''tree'') ''tree'') = JStr ''unknown'' \<or>
           confidence (analyzeDescription ((\<lambda>d. Returned ''{"confidence":"unknown"}'') ''tree'') ''tree'') = JStr ''error''\<close>
    by (simp add: local_unknown_sample)
  from analyze_unknown_or_error_returns_local [OF 1] analyze_unknown_or_error_returns_local [OF 2]
  show ?thesis
    by (simp add: e errorResult_def local_unknown_sample)
qed

text \<open>
  C1. Every result produced by a stage of the pipeline should have \<^verbatim>\<open>hasPII\<close> true exactly
  when \<^verbatim>\<open>types\<close> is non-empty, exactly when \<^verbatim>\<open>count\<close> is positive, also the result that
  \<^verbatim>\<open>analyze\<close> builds from a cloud response whose \<^verbatim>\<open>hasPII\<close> and \<^verbatim>\<open>types\<close> disagree. The
  local detector keeps this (\<open>analyzeDescription_invariant\<close>); \<^verbatim>\<open>analyze\<close> does not: it
  copies \<^verbatim>\<open>hasPII\<close> and \<^verbatim>\<open>types\<close> of the cloud response as they come. With a local result
  of low confidence and no finding, a cloud response with \<^verbatim>\<open>hasPII\<close> false and one type
  gives a result with \<^verbatim>\<open>hasPII\<close> false and \<^verbatim>\<open>count\<close> 1, and a cloud response with
  \<^verbatim>\<open>hasPII\<close> true and no type gives a result with \<^verbatim>\<open>hasPII\<close> true and \<^verbatim>\<open>count\<close> 0.
\<close>

theorem cloud_result_breaks_invariant:
  \<open>analyze (\<lambda>d. Returned ''ok'')
      (\<lambda>d. Returned (JObj [(''hasPII'', JBool False), (''types'', JArr [JStr ''ssn''])])) ''tree'' True
     = \<lparr> outcome = Returned \<lparr> hasPII = False, confidence = JStr ''high'',
                               types = [JStr ''ssn''], count = 1, regions = [] \<rparr>,
          cloudRequests = [''tree''] \<rparr> \<and>
   analyze (\<lambda>d. Returned ''ok'')
      (\<lambda>d. Returned (JObj [(''hasPII'', JBool True), (''types'', JArr [])])) ''tree'' True
     = \<lparr> outcome = Returned \<lparr> hasPII = True, confidence = JStr ''high'',
                               types = [], count = 0, regions = [] \<rparr>,
          cloudRequests = [''tree''] \<rparr>\<close>
  by (simp add: analyze_def Let_def local_clean_sample verify_with_cloud_def cloudResult_of_def
      cloud_types_def own_prop_def get_prop_def merge_results_def)

section \<open>The extractor\<close>

text \<open>
  C6. On the completion text
  \<^verbatim>\<open>Sure, here's the analysis: {hasPII: true, types: ["ssn", "face"], count: 2,}\<close>
  the extractor finds the object (by the span from the first to the last brace), the
  repairs quote its keys and drop its trailing comma, the repaired text parses, and the
  detector returns \<^verbatim>\<open>hasPII\<close> true, the types \<^verbatim>\<open>ssn\<close> and \<^verbatim>\<open>face\<close>, and \<^verbatim>\<open>count\<close> 2, whatever
  the description.
\<close>

theorem extractor_repairs_sample:
  \<open>locate_json (clean_response ''Sure, here's the analysis: {hasPII: true, types: ["ssn", "face"], count: 2,}'')
     = ''{hasPII: true, types: ["ssn", "face"], count: 2,}'' \<and>
   repair_json ''{hasPII: true, types: ["ssn", "face"], count: 2,}''
     = ''{"hasPII": true, "types": ["ssn", "face"], "count": 2}'' \<and>
   parse_and_validate ''{hasPII: true, types: ["ssn", "face"], count: 2,}''
     = Returned \<lparr> hasPII = True, confidence = JStr ''medium'',
                   types = [JStr ''ssn'', JStr ''face''], count = 2, regions = [] \<rparr> \<and>
   analyzeDescription
       (Returned ''Sure, here's the analysis: {hasPII: true, types: ["ssn", "face"], count: 2,}'') description
     = \<lparr> hasPII = True, confidence = JStr ''medium'',
          types = [JStr ''ssn'', JStr ''face''], count = 2, regions = [] \<rparr>\<close>
proof -
  have a: \<open>locate_json (clean_response ''Sure, here's the analysis: {hasPII: true, types: ["ssn", "face"], count: 2,}'')
     = ''{hasPII: true, types: ["ssn", "face"], count: 2,}''\<close>
    by code_simp
  have b: \<open>repair_json ''{hasPII: true, types: ["ssn", "face"], count: 2,}''
     = ''{"hasPII": true, "types": ["ssn", "face"], "count": 2}''\<close>
    by code_simp
  have c: \<open>JSON_parse ''{"hasPII": true, "types": ["ssn", "face"], "count": 2}''
     = Some (JObj [(''hasPII'', JBool True), (''types'', JArr [JStr ''ssn'', JStr ''face'']), (''count'', JNum 2)])\<close>
    by code_simp
  have d: \<open>validated_result (JObj [(''hasPII'', JBool True), (''types'', JArr [JStr ''ssn'', JStr ''face'']), (''count'', JNum 2)])
     = Returned \<lparr> hasPII = True, confidence = JStr ''medium'',
                   types = [JStr ''ssn'', JStr ''face''], count = 2, regions = [] \<rparr>\<close>
    by code_simp
  have e: \<open>parse_and_validate ''{hasPII: true, types: ["ssn", "face"], count: 2,}''
     = Returned \<lparr> hasPII = True, confidence = JStr ''medium'',
                   types = [JStr ''ssn'', JStr ''face''], count = 2, regions = [] \<rparr>\<close>
    by (simp add: parse_and_validate_def b c d)
  show ?thesis
    by (simp add: analyzeDescription_def Let_def a b e)
qed

theorem extractor_repairs_sample_witness:
  \<open>analyzeDescription
       (Returned ''Sure, here's the analysis: {hasPII: true, types: ["ssn", "face"], count: 2,}'') ''a card''
     = \<lparr> hasPII = True, confidence = JStr ''medium'',
          types = [JStr ''ssn'', JStr ''face''], count = 2, regions = [] \<rparr>\<close>
  using extractor_repairs_sample [of "''a card''"] by simp

text \<open>
  C9. The types of a result should hold no category twice, in particular when the parsed
  \<^verbatim>\<open>types\<close> array holds strings that repeat. The path for objects removes duplicates
  (\<open>object_path_distinct\<close>) and the fallback pushes none (\<open>fallback_types_distinct\<close>);
  the path for strings does not: on the completion
  \<^verbatim>\<open>{"hasPII":true,"types":["ssn","ssn"]}\<close> the detector returns \<^verbatim>\<open>ssn\<close> twice and
  \<^verbatim>\<open>count\<close> 2.
\<close>

theorem string_types_keep_duplicates:
  \<open>analyzeDescription (Returned ''{"hasPII":true,"types":["ssn","ssn"]}'') description
     = \<lparr> hasPII = True, confidence = JStr ''medium'',
          types = [JStr ''ssn'', JStr ''ssn''], count = 2, regions = [] \<rparr> \<and>
   \<not> distinct (types (analyzeDescription (Returned ''{"hasPII":true,"types":["ssn","ssn"]}'') description))\<close>
proof -
  have a: \<open>locate_json (clean_response ''{"hasPII":true,"types":["ssn","ssn"]}'')
     = ''{"hasPII":true,"types":["ssn","ssn"]}''\<close>
    by code_simp
  have b: \<open>parse_and_validate ''{"hasPII":true,"types":["ssn","ssn"]}''
     = Returned \<lparr> hasPII = True, confidence = JStr ''medium'',
          types = [JStr ''ssn'', JStr ''ssn''], count = 2, regions = [] \<rparr>\<close>
    by code_simp
  show ?thesis
    by (simp add: analyzeDescription_def Let_def a b)
qed

section \<open>The heuristic fallback\<close>

text \<open>
  C7, as stated: the fallback returns confidence \<^verbatim>\<open>low\<close> on every input. It does not: for
  the description \<^verbatim>\<open>a flower photo, no visible text or personal information\<close> and the
  analysis text \<^verbatim>\<open>no PII detected\<close> it returns \<^verbatim>\<open>medium\<close>.
\<close>

theorem fallbackDetection_not_always_low:
  "confidence (fallbackDetection ''no PII detected''
       ''a flower photo, no visible text or personal information'') = JStr ''medium'' \<and>
   confidence (fallbackDetection ''no PII detected''
       ''a flower photo, no visible text or personal information'') \<noteq> JStr ''low''"
proof -
  have "short_circuit ''no PII detected'' ''a flower photo, no visible text or personal information''"
    by code_simp
  then show ?thesis by (simp add: fallbackDetection_def)
qed

text \<open>
  C7, amended. For every analysis text and description, the fallback returns confidence
  \<^verbatim>\<open>medium\<close> when the description says that no text or PII is there and the analysis text
  holds no strong keyword, and \<^verbatim>\<open>low\<close> otherwise; it never returns \<^verbatim>\<open>high\<close>.
\<close>

theorem fallbackDetection_confidence:
  "confidence (fallbackDetection analysisText description) =
     (if short_circuit analysisText description then JStr ''medium'' else JStr ''low'') \<and>
   confidence (fallbackDetection analysisText description) \<noteq> JStr ''high''"
proof (cases "short_circuit analysisText description")
  case True
  then have "fallbackDetection analysisText description =
      \<lparr> hasPII = False, confidence = JStr ''medium'', types = [], count = 0, regions = [] \<rparr>"
    by (simp add: fallbackDetection_def)
  with True show ?thesis by simp
next
  case False
  then have "confidence (fallbackDetection analysisText description) = JStr ''low''"
    by (simp add: fallbackDetection_def Let_def)
  with False show ?thesis by simp
qed

theorem fallbackDetection_confidence_witness:
  "confidence (fallbackDetection ''ssn'' ''card'') = JStr ''low'' \<and>
   confidence (fallbackDetection ''no PII detected''
       ''a flower photo, no visible text or personal information'') = JStr ''medium''"
proof -
  have a: "\<not> short_circuit ''ssn'' ''card''" by code_simp
  have b: "short_circuit ''no PII detected'' ''a flower photo, no visible text or personal information''"
    by code_simp
  from fallbackDetection_confidence [of "''ssn''" "''card''"]
    fallbackDetection_confidence [of "''no PII detected''" "''a flower photo, no visible text or personal information''"]
    a b show ?thesis by simp
qed

section \<open>The region generator\<close>

text \<open>
  The generator's own list of known types is the vocabulary of the detector together
  with \<^verbatim>\<open>social_security_card\<close>, which it treats like \<^verbatim>\<open>ssn\<close>.
\<close>

lemma is_known_iff:
  "is_known t = (t \<in> JStr ` set knownTypes \<or> t = JStr ''social_security_card'')"
  by (cases t) (auto simp: is_known_def knownTypes_redactor_def knownTypes_def)

text \<open>
  C8, as stated: the result holds the \<^verbatim>\<open>comprehensive\<close> region whenever the list holds a
  category outside the known vocabulary (\<^verbatim>\<open>credit_card\<close>, \<^verbatim>\<open>ssn\<close>, \<^verbatim>\<open>face\<close>, \<^verbatim>\<open>address\<close>,
  \<^verbatim>\<open>email\<close>, \<^verbatim>\<open>phone\<close>, \<^verbatim>\<open>id_card\<close>). It does not: \<^verbatim>\<open>social_security_card\<close> is outside that
  vocabulary, and for the list that holds only it the generator returns the \<^verbatim>\<open>ssn\<close> region
  alone.
\<close>

theorem getRedactionRegions_alias_not_comprehensive:
  "''social_security_card'' \<notin> set knownTypes \<and>
   getRedactionRegions [JStr ''social_security_card''] =
     [\<lparr> region_x = 0.15, region_y = 0.3, region_width = 0.7, region_height = 0.2, region_type = ''ssn'' \<rparr>] \<and>
   \<lparr> region_x = 0.02, region_y = 0.02, region_width = 0.96, region_height = 0.96,
     region_type = ''comprehensive'' \<rparr> \<notin> set (getRedactionRegions [JStr ''social_security_card''])"
proof -
  have v: "getRedactionRegions [JStr ''social_security_card''] =
     [\<lparr> region_x = 0.15, region_y = 0.3, region_width = 0.7, region_height = 0.2, region_type = ''ssn'' \<rparr>]"
    by (simp add: getRedactionRegions_def Let_def is_known_def knownTypes_redactor_def)
  have k: "''social_security_card'' \<notin> set knownTypes"
    by (simp add: knownTypes_def)
  show ?thesis using v k by simp
qed

text \<open>
  C8, amended. For the types \<^verbatim>\<open>ssn\<close>, \<^verbatim>\<open>credit_card\<close>, \<^verbatim>\<open>face\<close> the generator returns the
  three regions of these types and then the near-full-frame region \<^verbatim>\<open>comprehensive\<close>; and
  for every list that has three or more elements, or holds a category that is neither in
  the known vocabulary nor \<^verbatim>\<open>social_security_card\<close>, the result holds the
  \<^verbatim>\<open>comprehensive\<close> region.
\<close>

theorem getRedactionRegions_comprehensive:
  "getRedactionRegions [JStr ''ssn'', JStr ''credit_card'', JStr ''face''] =
     [\<lparr> region_x = 0.15, region_y = 0.3, region_width = 0.7, region_height = 0.2, region_type = ''ssn'' \<rparr>,
      \<lparr> region_x = 0.05, region_y = 0.35, region_width = 0.9, region_height = 0.35, region_type = ''credit_card'' \<rparr>,
      \<lparr> region_x = 0.1, region_y = 0.1, region_width = 0.4, region_height = 0.45, region_type = ''face'' \<rparr>,
      \<lparr> region_x = 0.02, region_y = 0.02, region_width = 0.96, region_height = 0.96, region_type = ''comprehensive'' \<rparr>]
   \<and> ((\<exists>t \<in> set piiTypes. t \<notin> JStr ` set knownTypes \<and> t \<noteq> JStr ''social_security_card'')
          \<or> 3 \<le> length piiTypes \<longrightarrow>
        \<lparr> region_x = 0.02, region_y = 0.02, region_width = 0.96, region_height = 0.96,
          region_type = ''comprehensive'' \<rparr> \<in> set (getRedactionRegions piiTypes))"
proof
  show "getRedactionRegions [JStr ''ssn'', JStr ''credit_card'', JStr ''face''] =
     [\<lparr> region_x = 0.15, region_y = 0.3, region_width = 0.7, region_height = 0.2, region_type = ''ssn'' \<rparr>,
      \<lparr> region_x = 0.05, region_y = 0.35, region_width = 0.9, region_height = 0.35, region_type = ''credit_card'' \<rparr>,
      \<lparr> region_x = 0.1, region_y = 0.1, region_width = 0.4, region_height = 0.45, region_type = ''face'' \<rparr>,
      \<lparr> region_x = 0.02, region_y = 0.02, region_width = 0.96, region_height = 0.96, region_type = ''comprehensive'' \<rparr>]"
    by (simp add: getRedactionRegions_def Let_def is_known_def knownTypes_redactor_def)
next
  show "(\<exists>t \<in> set piiTypes. t \<notin> JStr ` set knownTypes \<and> t \<noteq> JStr ''social_security_card'')
          \<or> 3 \<le> length piiTypes \<longrightarrow>
        \<lparr> region_x = 0.02, region_y = 0.02, region_width = 0.96, region_height = 0.96,
          region_type = ''comprehensive'' \<rparr> \<in> set (getRedactionRegions piiTypes)"
  proof
    assume h: "(\<exists>t \<in> set piiTypes. t \<notin> JStr ` set knownTypes \<and> t \<noteq> JStr ''social_security_card'')
          \<or> 3 \<le> length piiTypes"
    then have h': "(\<exists>t \<in> set piiTypes. \<not> is_known t) \<or> 3 \<le> length piiTypes"
      using is_known_iff by blast
    have "(0 < length (filter (\<lambda>t. \<not> is_known t) piiTypes)) = (\<exists>t \<in> set piiTypes. \<not> is_known t)"
      by (simp add: filter_empty_conv)
    with h' have c: "0 < length (filter (\<lambda>t. \<not> is_known t) piiTypes) \<or> 3 \<le> length piiTypes"
      by simp
    show "\<lparr> region_x = 0.02, region_y = 0.02, region_width = 0.96, region_height = 0.96,
          region_type = ''comprehensive'' \<rparr> \<in> set (getRedactionRegions piiTypes)"
      unfolding getRedactionRegions_def Let_def
      by (simp only: c if_True set_append list.set) simp
  qed
qed

theorem getRedactionRegions_comprehensive_witness:
  "((\<exists>t \<in> set [JStr ''passport'']. t \<notin> JStr ` set knownTypes \<and> t \<noteq> JStr ''social_security_card'')
      \<or> 3 \<le> length [JStr ''passport'']) \<and>
   getRedactionRegions [JStr ''passport''] =
     [\<lparr> region_x = 0.02, region_y = 0.02, region_width = 0.96, region_height = 0.96, region_type = ''comprehensive'' \<rparr>]
   \<and> \<lparr> region_x = 0.02, region_y = 0.02, region_width = 0.96, region_height = 0.96,
          region_type = ''comprehensive'' \<rparr> \<in> set (getRedactionRegions [JStr ''passport''])"
proof -
  have h: "(\<exists>t \<in> set [JStr ''passport'']. t \<notin> JStr ` set knownTypes \<and> t \<noteq> JStr ''social_security_card'')
      \<or> 3 \<le> length [JStr ''passport'']"
    by (simp add: knownTypes_def)
  have v: "getRedactionRegions [JStr ''passport''] =
     [\<lparr> region_x = 0.02, region_y = 0.02, region_width = 0.96, region_height = 0.96, region_type = ''comprehensive'' \<rparr>]"
    by (simp add: getRedactionRegions_def Let_def is_known_def knownTypes_redactor_def)
  from getRedactionRegions_comprehensive [of "[JStr ''passport'']"] h v show ?thesis
    by blast
qed

end
